theory Spec2Isabelle
  imports Complex_Main "HOL-Library.Multiset"
begin

section \<open>Python helpers\<close>

text \<open>
  Python's slice \<open>xs[lo:hi]\<close> with optional bounds: a negative bound counts from the
  end, and every bound is clamped to the list, so a slice never raises.
\<close>

definition py_slice :: "int option \<Rightarrow> int option \<Rightarrow> 'a list \<Rightarrow> 'a list" where
  "py_slice lo hi xs =
     (let n = int (length xs);
          clamp = (\<lambda>i. if i < 0 then max 0 (n + i) else min i n);
          a = (case lo of None \<Rightarrow> 0 | Some i \<Rightarrow> clamp i);
          b = (case hi of None \<Rightarrow> n | Some i \<Rightarrow> clamp i)
      in take (nat (b - a)) (drop (nat a) xs))"

text \<open>
  The values stored in the dictionaries the reporting functions return. A Python float
  is stored as the real number it is (no NaN, no infinity). Where the rounding of the
  arithmetic on floats decides a result, in the improvement metrics, that arithmetic
  is a parameter; elsewhere sums and quotients are those of the reals.
\<close>

datatype pyvalue =
    PInt int
  | PFloat real
  | PStr string
  | PRows "(nat \<times> real) list"

type_synonym pydict = "(string \<times> pyvalue) list"

section \<open>The variant archive (archive.py)\<close>

text \<open>
  One row of the table \<open>agents\<close>. The column \<open>id\<close> is \<open>agent_id\<close> here;
  \<open>created_at\<close> (CURRENT_TIMESTAMP, a text with a resolution of one second whose text
  order is the order of time) is the number of seconds; \<open>metadata\<close> is the JSON text.
\<close>

record agent =
  agent_id :: int
  code :: string
  score :: real
  created_at :: nat
  parent_id :: "int option"
  description :: string
  metadata :: string
  is_functional :: bool

record performance =
  perf_agent_id :: int
  test_name :: string
  perf_score :: real
  perf_timestamp :: nat

text \<open>
  The database: the rows of \<open>agents\<close> in rowid order, the last id that AUTOINCREMENT
  handed out, and the rows of \<open>performance_history\<close>.
\<close>

record archive =
  agents :: "agent list"
  last_id :: int
  performance_history :: "performance list"

text \<open>
  \<open>save_agent\<close>: the new id is the successor of the last one; \<open>parent_id\<close> is stored as
  given, with no check against the rows present. \<open>now\<close> is CURRENT_TIMESTAMP.
\<close>

definition save_agent ::
  "archive \<Rightarrow> string \<Rightarrow> real \<Rightarrow> int option \<Rightarrow> string \<Rightarrow> string \<Rightarrow> bool \<Rightarrow> nat
     \<Rightarrow> int \<times> archive" where
  "save_agent db c s parent descr metadata_json functional now =
     (let new_id = last_id db + 1;
          row = \<lparr>agent_id = new_id, code = c, score = s, created_at = now,
                 parent_id = parent, description = descr, metadata = metadata_json,
                 is_functional = functional\<rparr>;
          perf = \<lparr>perf_agent_id = new_id, test_name = ''main_benchmark'',
                  perf_score = s, perf_timestamp = now\<rparr>
      in (new_id, db\<lparr>agents := agents db @ [row], last_id := new_id,
                      performance_history := performance_history db @ [perf]\<rparr>))"

text \<open>\<open>get_agent\<close>: SELECT ... WHERE id = ?, the first row fetched or None.\<close>

definition get_agent :: "archive \<Rightarrow> int \<Rightarrow> agent option" where
  "get_agent db i = find (\<lambda>a. agent_id a = i) (agents db)"

text \<open>
  \<open>get_all_agents\<close>: ORDER BY created_at DESC. SQL leaves the order of rows with equal
  \<open>created_at\<close> open; the model takes them in descending rowid order (a backward scan
  of the index on \<open>created_at\<close>). No theorem below depends on that choice.
\<close>

definition get_all_agents :: "archive \<Rightarrow> bool \<Rightarrow> agent list" where
  "get_all_agents db functional_only =
     (if functional_only
      then rev (sort_key created_at (filter is_functional (agents db)))
      else rev (sort_key created_at (agents db)))"

text \<open>
  \<open>select_parents\<close>. Python's \<open>sorted(..., key=score, reverse=True)\<close> is a stable sort
  in descending order of the key: a stable ascending sort by the negated score.
\<close>

definition sorted_by_score_desc :: "agent list \<Rightarrow> agent list" where
  "sorted_by_score_desc xs = sort_key (\<lambda>x. - score x) xs"

definition select_parents :: "archive \<Rightarrow> int \<Rightarrow> agent list" where
  "select_parents db k =
     (let functional_agents = get_all_agents db True in
      if functional_agents = [] then []
      else if int (length functional_agents) < k then functional_agents
      else py_slice None (Some k) (sorted_by_score_desc functional_agents))"

text \<open>
  \<open>get_lineage\<close>: the while loop over \<open>current_id\<close> with the list \<open>lineage\<close> built so
  far. The loop need not end (a row may name itself as parent), so not returning is the
  value None.
\<close>

partial_function (option) lineage_loop ::
  "archive \<Rightarrow> agent list \<Rightarrow> int option \<Rightarrow> agent list option" where
  "lineage_loop db lineage current_id =
     (case current_id of
        None \<Rightarrow> Some lineage
      | Some cid \<Rightarrow>
          (case get_agent db cid of
             Some a \<Rightarrow> lineage_loop db (lineage @ [a]) (parent_id a)
           | None \<Rightarrow> Some lineage))"

definition get_lineage :: "archive \<Rightarrow> int \<Rightarrow> agent list option" where
  "get_lineage db i = lineage_loop db [] (Some i)"

text \<open>
  \<open>get_statistics\<close>. The SQL aggregates MAX and AVG are NULL on no rows, which
  \<open>or 0.0\<close> turns into 0.0 (as it does a result that is zero).
\<close>

definition sql_max :: "real list \<Rightarrow> real option" where
  "sql_max xs = (case xs of [] \<Rightarrow> None | x # ys \<Rightarrow> Some (fold max ys x))"

definition sql_avg :: "real list \<Rightarrow> real option" where
  "sql_avg xs = (case xs of [] \<Rightarrow> None | _ \<Rightarrow> Some (sum_list xs / real (length xs)))"

definition or_zero :: "real option \<Rightarrow> real" where
  "or_zero v = (case v of None \<Rightarrow> 0 | Some x \<Rightarrow> (if x = 0 then 0 else x))"

definition get_statistics :: "archive \<Rightarrow> pydict" where
  "get_statistics db =
     (let total_agents = int (length (agents db));
          functional = filter is_functional (agents db);
          functional_agents = int (length functional);
          best_score = or_zero (sql_max (map score functional));
          avg_score = or_zero (sql_avg (map score functional));
          score_history = map (\<lambda>a. (created_at a, score a)) (sort_key created_at functional)
      in [(''total_agents'', PInt total_agents),
          (''functional_agents'', PInt functional_agents),
          (''success_rate'',
             if total_agents > 0 then PFloat (real_of_int functional_agents / real_of_int total_agents)
             else PInt 0),
          (''best_score'', PFloat best_score),
          (''average_score'', PFloat avg_score),
          (''score_history'', PRows score_history)])"

text \<open>
  What the claims about \<open>get_lineage\<close> speak of: the parent links of the stored rows,
  a parent chain without a cycle (no id reachable from \<open>i\<close> reaches itself), and a
  list that runs from the row \<open>i\<close> along the parent links until a row has no parent
  or the parent is not stored.
\<close>

definition parent_link :: "archive \<Rightarrow> (int \<times> int) set" where
  "parent_link db = {(c, p). \<exists>a. get_agent db c = Some a \<and> parent_id a = Some p}"

definition chain_acyclic :: "archive \<Rightarrow> int \<Rightarrow> bool" where
  "chain_acyclic db i =
     (\<forall>x. (i, x) \<in> (parent_link db)\<^sup>* \<longrightarrow> (x, x) \<notin> (parent_link db)\<^sup>+)"

fun lineage_spec :: "archive \<Rightarrow> int \<Rightarrow> agent list \<Rightarrow> bool" where
  "lineage_spec db i [] = (get_agent db i = None)"
| "lineage_spec db i (a # rest) =
     (get_agent db i = Some a \<and>
      (case parent_id a of None \<Rightarrow> rest = [] | Some p \<Rightarrow> lineage_spec db p rest))"

section \<open>The outside world\<close>

text \<open>
  Exceptions are values; \<open>str_exn\<close> is \<open>str(e)\<close>. Only the class Exception is
  modelled, the one the handlers of the source catch.
\<close>

datatype exn = Exception string

fun str_exn :: "exn \<Rightarrow> string" where
  "str_exn (Exception m) = m"

record completed_process =
  returncode :: int
  stdout :: string
  stderr :: string

text \<open>
  The operating system, as the code uses it: \<open>subprocess.run(cmd, shell=True)\<close>
  (which raises on a timeout), \<open>Path.write_text\<close>, \<open>Path.mkdir\<close>, \<open>Path.exists\<close>,
  \<open>shutil.rmtree\<close> and \<open>time.time\<close>, over a state \<open>'w\<close> of the machine. Every
  theorem holds for every such system unless it names a concrete one.
\<close>

record 'w sys =
  sys_run :: "string \<Rightarrow> 'w \<Rightarrow> (exn + completed_process) \<times> 'w"
  sys_write_text :: "string \<Rightarrow> string \<Rightarrow> 'w \<Rightarrow> (exn + unit) \<times> 'w"
  sys_mkdir :: "string \<Rightarrow> 'w \<Rightarrow> (exn + unit) \<times> 'w"
  sys_exists :: "string \<Rightarrow> 'w \<Rightarrow> bool"
  sys_rmtree :: "string \<Rightarrow> 'w \<Rightarrow> (exn + unit) \<times> 'w"
  sys_time :: "'w \<Rightarrow> real \<times> 'w"

text \<open>The calls made so far are recorded next to the state of the machine.\<close>

datatype call =
    Run string
  | WriteText string string
  | Mkdir string
  | Rmtree string
  | SolveTask string string

record 'w world =
  ext :: 'w
  calls :: "call list"

type_synonym ('w, 'a) io = "'w world \<Rightarrow> (exn + 'a) \<times> 'w world"

definition io_return :: "'a \<Rightarrow> ('w, 'a) io" where
  "io_return x w = (Inr x, w)"

definition io_raise :: "exn \<Rightarrow> ('w, 'a) io" where
  "io_raise e w = (Inl e, w)"

definition io_bind :: "('w, 'a) io \<Rightarrow> ('a \<Rightarrow> ('w, 'b) io) \<Rightarrow> ('w, 'b) io" where
  "io_bind m f w = (case m w of (Inl e, w') \<Rightarrow> (Inl e, w') | (Inr x, w') \<Rightarrow> f x w')"

definition try_except :: "('w, 'a) io \<Rightarrow> (exn \<Rightarrow> ('w, 'a) io) \<Rightarrow> ('w, 'a) io" where
  "try_except m handler w =
     (case m w of (Inl e, w') \<Rightarrow> handler e w' | (Inr x, w') \<Rightarrow> (Inr x, w'))"

definition run :: "'w sys \<Rightarrow> string \<Rightarrow> ('w, completed_process) io" where
  "run sys cmd w =
     (case sys_run sys cmd (ext w) of
        (r, e) \<Rightarrow> (r, \<lparr>ext = e, calls = calls w @ [Run cmd]\<rparr>))"

definition write_text :: "'w sys \<Rightarrow> string \<Rightarrow> string \<Rightarrow> ('w, unit) io" where
  "write_text sys path content w =
     (case sys_write_text sys path content (ext w) of
        (r, e) \<Rightarrow> (r, \<lparr>ext = e, calls = calls w @ [WriteText path content]\<rparr>))"

definition mkdir :: "'w sys \<Rightarrow> string \<Rightarrow> ('w, unit) io" where
  "mkdir sys path w =
     (case sys_mkdir sys path (ext w) of
        (r, e) \<Rightarrow> (r, \<lparr>ext = e, calls = calls w @ [Mkdir path]\<rparr>))"

definition rmtree :: "'w sys \<Rightarrow> string \<Rightarrow> ('w, unit) io" where
  "rmtree sys path w =
     (case sys_rmtree sys path (ext w) of
        (r, e) \<Rightarrow> (r, \<lparr>ext = e, calls = calls w @ [Rmtree path]\<rparr>))"

definition path_exists :: "'w sys \<Rightarrow> string \<Rightarrow> ('w, bool) io" where
  "path_exists sys path w = (Inr (sys_exists sys path (ext w)), w)"

definition time_now :: "'w sys \<Rightarrow> ('w, real) io" where
  "time_now sys w = (case sys_time sys (ext w) of (t, e) \<Rightarrow> (Inr t, w\<lparr>ext := e\<rparr>))"

text \<open>
  The agent under evaluation is outside the code: \<open>solve_task(problem, repo_dir)\<close> may
  change the machine, raise, or return something that is not a text (None).
\<close>

datatype answer = Text string | NoneValue

type_synonym 'w coding_agent = "string \<Rightarrow> string \<Rightarrow> 'w \<Rightarrow> (exn + answer) \<times> 'w"

definition solve_task :: "'w coding_agent \<Rightarrow> string \<Rightarrow> string \<Rightarrow> ('w, answer) io" where
  "solve_task agent problem repo_dir w =
     (case agent problem repo_dir (ext w) of
        (r, e) \<Rightarrow> (r, \<lparr>ext = e, calls = calls w @ [SolveTask problem repo_dir]\<rparr>))"

section \<open>Text helpers\<close>

definition newline :: char where
  "newline = CHR 0x0A"

definition starts_with :: "string \<Rightarrow> string \<Rightarrow> bool" where
  "starts_with p s = (take (length p) s = p)"

text \<open>\<open>s.split('\n')\<close>: never empty, one more piece than there are newlines.\<close>

fun split_nl :: "string \<Rightarrow> string list" where
  "split_nl [] = [[]]"
| "split_nl (c # cs) =
     (if c = newline then [] # split_nl cs
      else (case split_nl cs of [] \<Rightarrow> [[c]] | l # ls \<Rightarrow> (c # l) # ls))"

text \<open>\<open>'\n'.join(lines)\<close>.\<close>

fun join_nl :: "string list \<Rightarrow> string" where
  "join_nl [] = []"
| "join_nl [l] = l"
| "join_nl (l # ls) = l @ [newline] @ join_nl ls"

text \<open>
  \<open>s.strip()\<close> on ASCII text: the white space of Python is the characters 9 to 13,
  28 to 31 and the blank.
\<close>

definition py_isspace :: "char \<Rightarrow> bool" where
  "py_isspace c = (let n = (of_char c :: nat) in (9 \<le> n \<and> n \<le> 13) \<or> (28 \<le> n \<and> n \<le> 32))"

definition strip :: "string \<Rightarrow> string" where
  "strip s = rev (dropWhile py_isspace (rev (dropWhile py_isspace s)))"

text \<open>
  \<open>re.findall(pattern, s, re.DOTALL)\<close> for a pattern of plain characters with no
  group: its occurrences in \<open>s\<close> from left to right, none overlapping another.
  \<open>skip\<close> counts the characters of the last match still to pass.
\<close>

fun findall_from :: "string \<Rightarrow> nat \<Rightarrow> string \<Rightarrow> string list" where
  "findall_from pat skip [] = []"
| "findall_from pat skip (c # cs) =
     (if skip > 0 then findall_from pat (skip - 1) cs
      else if starts_with pat (c # cs) then pat # findall_from pat (length pat - 1) cs
      else findall_from pat 0 cs)"

definition findall :: "string \<Rightarrow> string \<Rightarrow> string list" where
  "findall pat s = findall_from pat 0 s"

section \<open>The benchmark harness (swe_bench_loader.py)\<close>

record bench_instance =
  instance_id :: string
  repo :: string
  base_commit :: string
  problem_statement :: string
  test_patch :: string

record loader =
  data_dir :: string

definition clone_cmd :: "string \<Rightarrow> string \<Rightarrow> string" where
  "clone_cmd repo_name repo_dir = ''git clone https://github.com/'' @ repo_name @ ''.git '' @ repo_dir"

definition checkout_cmd :: "string \<Rightarrow> string \<Rightarrow> string" where
  "checkout_cmd repo_dir commit = ''cd '' @ repo_dir @ '' && git checkout '' @ commit"

definition sandbox_path :: "loader \<Rightarrow> bench_instance \<Rightarrow> string" where
  "sandbox_path ld inst = data_dir ld @ ''/repos/'' @ instance_id inst"

text \<open>
  \<open>setup_repository\<close>: a failed clone raises; a failed checkout only prints a warning.
\<close>

definition setup_repository :: "'w sys \<Rightarrow> loader \<Rightarrow> bench_instance \<Rightarrow> ('w, string) io" where
  "setup_repository sys ld inst =
     (let repo_dir = sandbox_path ld inst in
      io_bind (mkdir sys (data_dir ld @ ''/repos'')) (\<lambda>_.
      io_bind (path_exists sys repo_dir) (\<lambda>present.
      io_bind (if present then rmtree sys repo_dir else io_return ()) (\<lambda>_.
      io_bind (run sys (clone_cmd (repo inst) repo_dir)) (\<lambda>result.
        if returncode result \<noteq> 0
        then io_raise (Exception (''Failed to clone repository: '' @ stderr result))
        else io_bind (run sys (checkout_cmd repo_dir (base_commit inst))) (\<lambda>_.
             io_return repo_dir))))))"

text \<open>
  The dictionary \<open>run_tests\<close> returns: \<open>passed\<close> always, the other keys in some
  branches only (None is a missing key).
\<close>

record test_result =
  passed :: bool
  tr_reason :: "string option"
  tr_stdout :: "string option"
  tr_stderr :: "string option"
  tr_returncode :: "int option"

definition apply_test_cmd :: "string \<Rightarrow> string" where
  "apply_test_cmd repo_dir = ''cd '' @ repo_dir @ '' && git apply test_patch.patch''"

definition test_cmd :: "string \<Rightarrow> string" where
  "test_cmd repo_dir = ''cd '' @ repo_dir @ '' && python -m pytest -xvs''"

definition failed_test :: "string \<Rightarrow> test_result" where
  "failed_test why = \<lparr>passed = False, tr_reason = Some why, tr_stdout = None,
                       tr_stderr = None, tr_returncode = None\<rparr>"

definition run_tests :: "'w sys \<Rightarrow> string \<Rightarrow> bench_instance \<Rightarrow> ('w, test_result) io" where
  "run_tests sys repo_dir inst =
     (if test_patch inst = [] then io_return (failed_test ''No test patch available'')
      else try_except
        (io_bind (write_text sys (repo_dir @ ''/test_patch.patch'') (test_patch inst)) (\<lambda>_.
         io_bind (run sys (apply_test_cmd repo_dir)) (\<lambda>result.
           if returncode result \<noteq> 0
           then io_return (failed_test (''Failed to apply test patch: '' @ stderr result))
           else io_bind (run sys (test_cmd repo_dir)) (\<lambda>result.
             io_return \<lparr>passed = (returncode result = 0), tr_reason = None,
                        tr_stdout = Some (stdout result), tr_stderr = Some (stderr result),
                        tr_returncode = Some (returncode result)\<rparr>))))
        (\<lambda>e. io_return (failed_test (str_exn e))))"

text \<open>The dictionary \<open>evaluate_patch\<close> returns.\<close>

record evaluation =
  success :: bool
  reason :: string
  ev_score :: real
  test_output :: "string option"
  test_errors :: "string option"

definition reset_cmd :: "string \<Rightarrow> string" where
  "reset_cmd repo_dir = ''cd '' @ repo_dir @ '' && git checkout HEAD -- .''"

definition apply_cmd :: "string \<Rightarrow> string" where
  "apply_cmd repo_dir = ''cd '' @ repo_dir @ '' && git apply agent_patch.patch''"

definition evaluate_patch ::
  "'w sys \<Rightarrow> string \<Rightarrow> string \<Rightarrow> bench_instance \<Rightarrow> ('w, evaluation) io" where
  "evaluate_patch sys repo_dir patch_content inst =
     try_except
       (io_bind (run sys (reset_cmd repo_dir)) (\<lambda>_.
        io_bind (write_text sys (repo_dir @ ''/agent_patch.patch'') patch_content) (\<lambda>_.
        io_bind (run sys (apply_cmd repo_dir)) (\<lambda>result.
          if returncode result \<noteq> 0
          then io_return \<lparr>success = False,
                          reason = ''Patch failed to apply: '' @ stderr result,
                          ev_score = 0, test_output = None, test_errors = None\<rparr>
          else io_bind (run_tests sys repo_dir inst) (\<lambda>tr.
            io_return \<lparr>success = passed tr,
                       reason = (case tr_reason tr of None \<Rightarrow> ''Tests completed'' | Some r \<Rightarrow> r),
                       ev_score = (if passed tr then 1 else 0),
                       test_output = Some (case tr_stdout tr of None \<Rightarrow> [] | Some out \<Rightarrow> out),
                       test_errors = Some (case tr_stderr tr of None \<Rightarrow> [] | Some err \<Rightarrow> err)\<rparr>)))))
       (\<lambda>e. io_return \<lparr>success = False, reason = str_exn e, ev_score = 0,
                        test_output = None, test_errors = None\<rparr>)"

section \<open>The evaluator (evaluator.py)\<close>

subsection \<open>Patch extraction\<close>

text \<open>
  The pattern of strategy 1 as the source has it: six backquote characters, with no
  group and no character that a regular expression reads specially.
\<close>

definition diff_pattern :: string where
  "diff_pattern = replicate 6 (CHR 0x60)"

definition quote :: char where
  "quote = CHR 0x27"

text \<open>
  The scan of strategy 2: once a line starts with \<open>diff --git\<close>, that line and every
  later one is kept.
\<close>

fun scan_lines :: "bool \<Rightarrow> string list \<Rightarrow> string list \<Rightarrow> string list" where
  "scan_lines in_diff diff_lines [] = diff_lines"
| "scan_lines in_diff diff_lines (line # rest) =
     (let in_diff' = (in_diff \<or> starts_with ''diff --git'' line)
      in scan_lines in_diff' (if in_diff' then diff_lines @ [line] else diff_lines) rest)"

definition git_diff_cmd :: "string \<Rightarrow> string" where
  "git_diff_cmd repo_dir = ''cd '' @ repo_dir @ '' && git diff''"

definition status_cmd :: "string \<Rightarrow> string" where
  "status_cmd repo_dir = ''cd '' @ repo_dir @ '' && git status --porcelain''"

definition add_cmd :: "string \<Rightarrow> string" where
  "add_cmd repo_dir = ''cd '' @ repo_dir @ '' && git add -A''"

definition diff_cached_cmd :: "string \<Rightarrow> string" where
  "diff_cached_cmd repo_dir = ''cd '' @ repo_dir @ '' && git diff --cached''"

text \<open>
  The body of the \<open>try\<close> block of \<open>extract_patch_from_solution\<close>. A solution that
  is not a text makes \<open>re.findall\<close> raise TypeError.
\<close>

definition extract_patch_body :: "'w sys \<Rightarrow> answer \<Rightarrow> string \<Rightarrow> ('w, string) io" where
  "extract_patch_body sys solution repo_dir =
     (case solution of
        NoneValue \<Rightarrow>
          io_raise (Exception (''expected string or bytes-like object, got '' @ [quote]
                               @ ''NoneType'' @ [quote]))
      | Text s \<Rightarrow>
          (case findall diff_pattern s of
             m # _ \<Rightarrow> io_return m
           | [] \<Rightarrow>
               (case scan_lines False [] (split_nl s) of
                  l # ls \<Rightarrow> io_return (join_nl (l # ls))
                | [] \<Rightarrow>
                    io_bind (run sys (git_diff_cmd repo_dir)) (\<lambda>result.
                      if returncode result = 0 \<and> strip (stdout result) \<noteq> []
                      then io_return (stdout result)
                      else io_bind (run sys (status_cmd repo_dir)) (\<lambda>status_result.
                        if strip (stdout status_result) \<noteq> []
                        then io_bind (run sys (add_cmd repo_dir)) (\<lambda>_.
                             io_bind (run sys (diff_cached_cmd repo_dir)) (\<lambda>cached_result.
                               if returncode cached_result = 0
                               then io_return (stdout cached_result)
                               else io_return []))
                        else io_return [])))))"

definition extract_patch_from_solution :: "'w sys \<Rightarrow> answer \<Rightarrow> string \<Rightarrow> ('w, string) io" where
  "extract_patch_from_solution sys solution repo_dir =
     try_except (extract_patch_body sys solution repo_dir) (\<lambda>e. io_return [])"

subsection \<open>Evaluating an agent\<close>

text \<open>
  One entry of \<open>results\<close>; the entry written by the exception handler has no
  \<open>repo\<close> and no \<open>solution\<close>.
\<close>

record result =
  r_instance_id :: string
  r_repo :: "string option"
  r_success :: bool
  r_score :: real
  r_reason :: string
  r_elapsed_time :: real
  r_solution :: "string option"

record evaluation_run =
  timestamp :: real
  num_tasks :: int
  run_passed :: int
  run_score :: real
  run_results :: "result list"

record evaluator =
  current_instances :: "bench_instance list"
  results_history :: "evaluation_run list"

text \<open>
  \<open>solution[:500] + "..." if len(solution) > 500 else solution\<close>; \<open>len\<close> of None
  raises TypeError.
\<close>

definition shown_solution :: "answer \<Rightarrow> exn + string" where
  "shown_solution solution =
     (case solution of
        NoneValue \<Rightarrow>
          Inl (Exception (''object of type '' @ [quote] @ ''NoneType'' @ [quote]
                          @ '' has no len()''))
      | Text s \<Rightarrow>
          Inr (if length s > 500 then py_slice None (Some 500) s @ ''...'' else s))"

text \<open>
  The \<open>try\<close> block of the loop body up to the construction of \<open>result\<close>: it yields
  the sandbox, the evaluation and the entry to append.
\<close>

definition attempt_instance ::
  "'w sys \<Rightarrow> loader \<Rightarrow> 'w coding_agent \<Rightarrow> bench_instance
     \<Rightarrow> ('w, string \<times> evaluation \<times> result) io" where
  "attempt_instance sys ld agent inst =
     io_bind (time_now sys) (\<lambda>start_time.
     io_bind (setup_repository sys ld inst) (\<lambda>repo_dir.
     io_bind (solve_task agent (problem_statement inst) repo_dir) (\<lambda>solution.
     io_bind (extract_patch_from_solution sys solution repo_dir) (\<lambda>patch.
     io_bind (evaluate_patch sys repo_dir patch inst) (\<lambda>evaluation.
     io_bind (time_now sys) (\<lambda>end_time.
       case shown_solution solution of
         Inl e \<Rightarrow> io_raise e
       | Inr shown \<Rightarrow>
           io_return (repo_dir, evaluation,
             \<lparr>r_instance_id = instance_id inst, r_repo = Some (repo inst),
              r_success = success evaluation, r_score = ev_score evaluation,
              r_reason = reason evaluation, r_elapsed_time = end_time - start_time,
              r_solution = Some shown\<rparr>)))))))"

text \<open>The end of the \<open>try\<close> block: the cleanup of the sandbox.\<close>

definition cleanup :: "'w sys \<Rightarrow> string \<Rightarrow> ('w, unit) io" where
  "cleanup sys repo_dir =
     io_bind (path_exists sys repo_dir) (\<lambda>present.
       if present then rmtree sys repo_dir else io_return ())"

definition exception_result :: "bench_instance \<Rightarrow> exn \<Rightarrow> result" where
  "exception_result inst e =
     \<lparr>r_instance_id = instance_id inst, r_repo = None, r_success = False, r_score = 0,
      r_reason = ''Exception: '' @ str_exn e, r_elapsed_time = 0, r_solution = None\<rparr>"

text \<open>
  One round of the loop, on the locals \<open>passed\<close> and \<open>results\<close>: the \<open>try\<close> block
  (the attempt, the append, the count, the cleanup) and its handler, which appends the
  exception's entry to whatever \<open>results\<close> holds when the exception arrives.
\<close>

definition process_instance ::
  "'w sys \<Rightarrow> loader \<Rightarrow> 'w coding_agent \<Rightarrow> bench_instance
     \<Rightarrow> (int \<times> result list) \<times> 'w world \<Rightarrow> (int \<times> result list) \<times> 'w world" where
  "process_instance sys ld agent inst st =
     (case st of ((passed_count, results), w) \<Rightarrow>
        (case attempt_instance sys ld agent inst w of
           (Inl e, w1) \<Rightarrow> ((passed_count, results @ [exception_result inst e]), w1)
         | (Inr (repo_dir, evaluation, res), w1) \<Rightarrow>
             (let results1 = results @ [res];
                  passed1 = (if success evaluation then passed_count + 1 else passed_count)
              in case cleanup sys repo_dir w1 of
                   (Inl e, w2) \<Rightarrow> ((passed1, results1 @ [exception_result inst e]), w2)
                 | (Inr _, w2) \<Rightarrow> ((passed1, results1), w2))))"

text \<open>
  \<open>for i in range(num_tasks): instance = self.current_instances[i]\<close>. The caller
  has \<open>num_tasks\<close> at most the number of instances, so the index is in range.
\<close>

function instance_loop ::
  "'w sys \<Rightarrow> loader \<Rightarrow> 'w coding_agent \<Rightarrow> bench_instance list \<Rightarrow> int \<Rightarrow> int
     \<Rightarrow> (int \<times> result list) \<times> 'w world \<Rightarrow> (int \<times> result list) \<times> 'w world" where
  "instance_loop sys ld agent insts i n st =
     (if 0 \<le> i \<and> i < n
      then instance_loop sys ld agent insts (i + 1) n
             (process_instance sys ld agent (insts ! nat i) st)
      else st)"
  by pat_completeness auto
termination
  by (relation "measure (\<lambda>(sys, ld, agent, insts, i, n, st). nat (n - i))") auto

declare instance_loop.simps [simp del]

text \<open>
  \<open>evaluate_agent\<close> returns the score; the evaluator (its history) and the world are
  returned updated.
\<close>

definition evaluate_agent ::
  "'w sys \<Rightarrow> loader \<Rightarrow> 'w coding_agent \<Rightarrow> evaluator \<Rightarrow> int \<Rightarrow> 'w world
     \<Rightarrow> (real \<times> evaluator) \<times> 'w world" where
  "evaluate_agent sys ld agent ev requested w =
     (if current_instances ev = [] then ((0, ev), w)
      else
        (let n = min requested (int (length (current_instances ev))) in
         case instance_loop sys ld agent (current_instances ev) 0 n ((0, []), w) of
           ((passed_count, results), w1) \<Rightarrow>
             (let final_score = (if n > 0 then real_of_int passed_count / real_of_int n else 0) in
              case sys_time sys (ext w1) of
                (now, e2) \<Rightarrow>
                  ((final_score,
                    ev\<lparr>results_history := results_history ev @
                         [\<lparr>timestamp = now, num_tasks = n, run_passed = passed_count,
                           run_score = final_score, run_results = results\<rparr>]\<rparr>),
                   w1\<lparr>ext := e2\<rparr>))))"

subsection \<open>Exceptions outside the class Exception\<close>

text \<open>
  \<open>except Exception\<close> does not catch every exception: SystemExit (raised by
  \<open>sys.exit\<close>, which the Ctrl+C handler of main.py calls) and KeyboardInterrupt are
  outside the class Exception. The definitions of this subsection are the loop of
  \<open>evaluate_agent\<close> once more, for an agent whose \<open>solve_task\<close> may also end in such
  an exception: \<open>Inl\<close> is an exception that no handler of the code catches, and the
  function that meets it is left at once. The other calls raise as before.
\<close>

datatype base_exception = SystemExit int | KeyboardInterrupt











subsection \<open>Improvement metrics\<close>

text \<open>
  A score is a Python float: a binary64 number, which is a real number, and stored as
  such. The arithmetic on floats is not that of the reals: a quotient or a difference
  is the exact result rounded to a float (\<open>fl\<close>), and the builtin \<open>sum\<close> adds a list
  of floats by an algorithm that depends on the version of Python (\<open>fsum\<close>). Both are
  taken as parameters, so that what is proved holds for whatever they are. Comparing
  two floats compares the numbers. The literal \<open>0.01\<close> denotes the float nearest to
  1/100, which is not 1/100.
\<close>

record float_arith =
  fl :: "real \<Rightarrow> real"
  fsum :: "real list \<Rightarrow> real"

definition float_0_01 :: real where
  "float_0_01 = 5764607523034235 / 2 ^ 59"

text \<open>\<open>sum(xs) / len(xs)\<close>.\<close>

definition mean :: "float_arith \<Rightarrow> real list \<Rightarrow> real" where
  "mean fa xs = fl fa (fsum fa xs / real (length xs))"

definition trend_of :: "real \<Rightarrow> string" where
  "trend_of improvement =
     (if improvement > float_0_01 then ''improving''
      else if improvement < - float_0_01 then ''declining''
      else ''stable'')"

definition get_improvement_metrics :: "float_arith \<Rightarrow> evaluator \<Rightarrow> pydict" where
  "get_improvement_metrics fa ev =
     (let h = results_history ev in
      if length h < 2
      then [(''improvement'', PFloat 0), (''trend'', PStr ''insufficient_data'')]
      else
        (let recent_scores = map run_score (py_slice (Some (- 5)) None h);
             earlier_scores =
               (if length h \<ge> 10
                then map run_score (py_slice (Some (- 10)) (Some (- 5)) h)
                else [run_score (last h)]);
             recent_avg = mean fa recent_scores;
             earlier_avg = mean fa earlier_scores;
             improvement = fl fa (recent_avg - earlier_avg)
         in [(''improvement'', PFloat improvement),
             (''trend'', PStr (trend_of improvement)),
             (''recent_avg'', PFloat recent_avg),
             (''earlier_avg'', PFloat earlier_avg),
             (''total_evaluations'', PInt (int (length h)))]))"

text \<open>
  The comparison as the specification words it: the runs before the most recent five,
  at most five of them, however short the history.
\<close>

definition spec_earlier_scores :: "evaluator \<Rightarrow> real list" where
  "spec_earlier_scores ev = map run_score (py_slice (Some (- 10)) (Some (- 5)) (results_history ev))"

definition spec_recent_scores :: "evaluator \<Rightarrow> real list" where
  "spec_recent_scores ev = map run_score (py_slice (Some (- 5)) None (results_history ev))"

definition spec_improvement :: "float_arith \<Rightarrow> evaluator \<Rightarrow> real" where
  "spec_improvement fa ev =
     fl fa (mean fa (spec_recent_scores ev) - mean fa (spec_earlier_scores ev))"

section \<open>Concrete inputs\<close>

text \<open>
  An archive of four rows: row 3 is not functional, and row 5 names a parent (4) that is
  not stored.
\<close>

definition demo_archive :: archive where
  "demo_archive =
     \<lparr>agents =
        [\<lparr>agent_id = 1, code = ''a1'', score = 3/4, created_at = 1, parent_id = None,
          description = [], metadata = ''{}'', is_functional = True\<rparr>,
         \<lparr>agent_id = 2, code = ''a2'', score = 1/4, created_at = 2, parent_id = Some 1,
          description = [], metadata = ''{}'', is_functional = True\<rparr>,
         \<lparr>agent_id = 3, code = ''a3'', score = 1/2, created_at = 3, parent_id = Some 2,
          description = [], metadata = ''{}'', is_functional = False\<rparr>,
         \<lparr>agent_id = 5, code = ''a5'', score = 1/2, created_at = 5, parent_id = Some 4,
          description = [], metadata = ''{}'', is_functional = True\<rparr>],
      last_id = 5, performance_history = []\<rparr>"

definition empty_archive :: archive where
  "empty_archive = \<lparr>agents = [], last_id = 0, performance_history = []\<rparr>"

text \<open>
  A machine whose state is the list of the directories that exist: a \<open>git clone\<close>
  that succeeds creates its target (the last word of the command), \<open>rmtree\<close> removes
  a directory, and \<open>behaviour\<close> says how each command ends.
\<close>

definition last_word :: "string \<Rightarrow> string" where
  "last_word s = rev (takeWhile (\<lambda>c. c \<noteq> CHR '' '') (rev s))"

definition demo_sys :: "(string \<Rightarrow> exn + completed_process) \<Rightarrow> string list sys" where
  "demo_sys behaviour =
     \<lparr>sys_run = (\<lambda>cmd dirs.
        (behaviour cmd,
         case behaviour cmd of
           Inl _ \<Rightarrow> dirs
         | Inr cp \<Rightarrow>
             if returncode cp = 0 \<and> starts_with ''git clone '' cmd
             then dirs @ [last_word cmd] else dirs)),
      sys_write_text = (\<lambda>path content dirs. (Inr (), dirs)),
      sys_mkdir = (\<lambda>path dirs. (Inr (), dirs)),
      sys_exists = (\<lambda>path dirs. path \<in> set dirs),
      sys_rmtree = (\<lambda>path dirs. (Inr (), removeAll path dirs)),
      sys_time = (\<lambda>dirs. (0, dirs))\<rparr>"

definition done_ok :: completed_process where
  "done_ok = \<lparr>returncode = 0, stdout = [], stderr = []\<rparr>"

definition all_ok :: "string \<Rightarrow> exn + completed_process" where
  "all_ok cmd = Inr done_ok"

definition apply_fails :: "string \<Rightarrow> exn + completed_process" where
  "apply_fails cmd =
     (if cmd = apply_cmd ''d/repos/a''
      then Inr \<lparr>returncode = 1, stdout = [], stderr = ''error: corrupt patch''\<rparr>
      else Inr done_ok)"

definition diff_raises :: "string \<Rightarrow> exn + completed_process" where
  "diff_raises cmd =
     (if cmd = git_diff_cmd ''d/repos/a'' then Inl (Exception ''no shell'') else Inr done_ok)"

definition raising_agent :: "string list coding_agent" where
  "raising_agent problem repo_dir dirs = (Inl (Exception ''boom''), dirs)"


definition inst_a :: bench_instance where
  "inst_a = \<lparr>instance_id = ''a'', repo = ''o/r'', base_commit = ''c0'',
             problem_statement = ''fix a'', test_patch = ''t''\<rparr>"

definition inst_b :: bench_instance where
  "inst_b = \<lparr>instance_id = ''b'', repo = ''o/r'', base_commit = ''c1'',
             problem_statement = ''fix b'', test_patch = ''t''\<rparr>"

definition demo_loader :: loader where
  "demo_loader = \<lparr>data_dir = ''d''\<rparr>"

definition world0 :: "string list world" where
  "world0 = \<lparr>ext = [], calls = []\<rparr>"

text \<open>
  A solution with a fenced block that holds a diff, followed by a line that starts with
  \<open>diff --git\<close>, and the content of that block.
\<close>

definition fence :: string where
  "fence = replicate 3 (CHR 0x60)"

definition fenced_content :: string where
  "fenced_content = ''--- a/f'' @ [newline] @ ''+++ b/f'' @ [newline]"

definition fenced_solution :: string where
  "fenced_solution =
     fence @ ''diff'' @ [newline] @ fenced_content @ fence @ [newline] @ ''diff --git a/g b/g''"

text \<open>Histories of runs, given by their scores.\<close>

definition run_with :: "real \<Rightarrow> evaluation_run" where
  "run_with s = \<lparr>timestamp = 0, num_tasks = 1, run_passed = 0, run_score = s, run_results = []\<rparr>"

definition history_of :: "real list \<Rightarrow> evaluator" where
  "history_of scores = \<lparr>current_instances = [], results_history = map run_with scores\<rparr>"

text \<open>
  \<open>save_agent\<close> on the empty archive with parent id 1: the new row gets the id 1 and is
  its own parent.
\<close>

definition self_parent_archive :: archive where
  "self_parent_archive = snd (save_agent empty_archive ''x'' 0 (Some 1) [] ''{}'' True 0)"

text \<open>
  The arithmetic of the reals, with nothing rounded: one arithmetic among those the
  theorems on the improvement metrics speak of.
\<close>

definition exact_arith :: float_arith where
  "exact_arith = \<lparr>fl = (\<lambda>x. x), fsum = sum_list\<rparr>"




section \<open>The archive: selection, lineage, statistics\<close>

lemma py_slice_take: "0 \<le> k \<Longrightarrow> py_slice None (Some k) xs = take (nat k) xs"
  by (simp add: py_slice_def Let_def min_def)

lemma length_get_all_functional:
  "length (get_all_agents db True) = length (filter is_functional (agents db))"
  by (simp add: get_all_agents_def)

lemma mset_get_all_functional:
  "mset (get_all_agents db True) = mset (filter is_functional (agents db))"
  by (simp add: get_all_agents_def)

lemma sorted_desc_take:
  "sorted_wrt (\<lambda>a b. score b \<le> score a) (take n (sorted_by_score_desc xs))"
proof -
  have "sorted (map (\<lambda>x. - score x) (sorted_by_score_desc xs))"
    by (simp add: sorted_by_score_desc_def)
  then have "sorted_wrt (\<lambda>a b. score b \<le> score a) (sorted_by_score_desc xs)"
    by (simp add: sorted_map)
  then show ?thesis by (rule sorted_wrt_take)
qed

lemma top_above_rest:
  "\<forall>a \<in> set (take n (sorted_by_score_desc xs)). \<forall>b \<in> set (drop n (sorted_by_score_desc xs)).
     score b \<le> score a"
proof -
  have "sorted_wrt (\<lambda>a b. score b \<le> score a) (sorted_by_score_desc xs)"
    using sorted_desc_take[of "length xs" xs] by (simp add: sorted_by_score_desc_def)
  then have "sorted_wrt (\<lambda>a b. score b \<le> score a)
               (take n (sorted_by_score_desc xs) @ drop n (sorted_by_score_desc xs))"
    by simp
  then show ?thesis unfolding sorted_wrt_append by blast
qed

text \<open>
  Claim C2, as the code has it. For \<open>k \<ge> 1\<close>, \<open>select_parents\<close> returns
  \<open>min k n\<close> rows, \<open>n\<close> the number of functional rows. When \<open>k \<le> n\<close> they are in
  descending order of score and no functional row left out scores higher than one
  returned. When \<open>n < k\<close> the result is the list of functional rows as \<open>get_all_agents\<close>
  gives it (newest first), not sorted by score.
\<close>

theorem select_parents_top_k:
  assumes "1 \<le> k"
  shows "length (select_parents db k) = min (nat k) (length (filter is_functional (agents db))) \<and>
         (k \<le> int (length (filter is_functional (agents db))) \<longrightarrow>
            sorted_wrt (\<lambda>a b. score b \<le> score a) (select_parents db k) \<and>
            (\<exists>rest. mset (select_parents db k) + mset rest = mset (filter is_functional (agents db)) \<and>
                    (\<forall>a \<in> set (select_parents db k). \<forall>b \<in> set rest. score b \<le> score a))) \<and>
         (int (length (filter is_functional (agents db))) < k \<longrightarrow>
            select_parents db k = get_all_agents db True)"
proof -
  let ?fs = "get_all_agents db True"
  let ?n = "length (filter is_functional (agents db))"
  have len: "length ?fs = ?n" by (rule length_get_all_functional)
  have k0: "0 \<le> k" using assms by simp
  show ?thesis
  proof (cases "int ?n < k")
    case True
    then have "select_parents db k = ?fs"
      using len by (auto simp: select_parents_def Let_def)
    with True len show ?thesis by (simp add: min_def) linarith
  next
    case False
    then have ne: "?fs \<noteq> []" using assms len by auto
    have sel: "select_parents db k = take (nat k) (sorted_by_score_desc ?fs)"
      using False ne len k0 by (simp add: select_parents_def Let_def py_slice_take)
    have l: "length (select_parents db k) = min (nat k) ?n"
      using len by (simp add: sel sorted_by_score_desc_def min_def)
    have s: "sorted_wrt (\<lambda>a b. score b \<le> score a) (select_parents db k)"
      unfolding sel by (rule sorted_desc_take)
    have m: "mset (select_parents db k) + mset (drop (nat k) (sorted_by_score_desc ?fs))
               = mset (filter is_functional (agents db))"
    proof -
      have "mset (take (nat k) (sorted_by_score_desc ?fs)) + mset (drop (nat k) (sorted_by_score_desc ?fs))
              = mset (sorted_by_score_desc ?fs)"
        by (metis append_take_drop_id mset_append)
      also have "\<dots> = mset ?fs" by (simp add: sorted_by_score_desc_def)
      finally show ?thesis by (simp add: sel mset_get_all_functional)
    qed
    have t: "\<forall>a \<in> set (select_parents db k). \<forall>b \<in> set (drop (nat k) (sorted_by_score_desc ?fs)).
               score b \<le> score a"
      unfolding sel by (rule top_above_rest)
    from l s m t False show ?thesis by blast
  qed
qed

theorem select_parents_top_k_witness:
  "(1::int) \<le> 2 \<and>
   length (select_parents demo_archive 2) = 2 \<and>
   sorted_wrt (\<lambda>a b. score b \<le> score a) (select_parents demo_archive 2) \<and>
   select_parents demo_archive 4 = get_all_agents demo_archive True \<and>
   map agent_id (select_parents demo_archive 2) = [1, 5]"
proof -
  have n: "length (filter is_functional (agents demo_archive)) = 3"
    by (simp add: demo_archive_def)
  have ids: "map agent_id (select_parents demo_archive 2) = [1, 5]"
    by (simp add: select_parents_def get_all_agents_def demo_archive_def
        sorted_by_score_desc_def py_slice_def)
  show ?thesis
    using select_parents_top_k[of 2 demo_archive] select_parents_top_k[of 4 demo_archive] n ids
    by simp
qed

text \<open>
  Claim C2 as stated fails where there are fewer functional rows than \<open>k\<close>: three
  functional rows and \<open>k = 4\<close> give the rows newest first, with scores 1/2, 1/4, 3/4.
\<close>

theorem select_parents_unsorted_counterexample:
  "map score (select_parents demo_archive 4) = [1/2, 1/4, 3/4] \<and>
   \<not> sorted_wrt (\<lambda>a b. score b \<le> score a) (select_parents demo_archive 4)"
  by (simp add: select_parents_def get_all_agents_def demo_archive_def)

lemma get_agent_Some: "get_agent db c = Some a \<Longrightarrow> a \<in> set (agents db) \<and> agent_id a = c"
  by (auto simp: get_agent_def find_Some_iff)

lemma finite_parent_link: "finite (parent_link db)"
proof -
  have "parent_link db \<subseteq> (\<lambda>a. (agent_id a, the (parent_id a))) ` set (agents db)"
    by (auto simp: parent_link_def image_iff dest!: get_agent_Some intro!: bexI)
  then show ?thesis by (rule finite_subset) simp
qed

lemma wf_chain:
  assumes "chain_acyclic db i"
  shows "wf {(p, c). (c, p) \<in> parent_link db \<and> (i, c) \<in> (parent_link db)\<^sup>*}"
proof (rule finite_acyclic_wf)
  let ?r = "parent_link db"
  let ?R = "{(p, c). (c, p) \<in> ?r \<and> (i, c) \<in> ?r\<^sup>*}"
  have sub: "?R \<subseteq> ?r\<inverse>" by auto
  show "finite ?R" using finite_subset[OF sub] finite_parent_link by simp
  show "acyclic ?R"
  proof (rule acyclicI, rule allI, rule notI)
    fix x assume xx: "(x, x) \<in> ?R\<^sup>+"
    then obtain y where "(y, x) \<in> ?R" by (meson tranclE)
    then have reach: "(i, x) \<in> ?r\<^sup>*" by auto
    from xx have "(x, x) \<in> (?r\<inverse>)\<^sup>+" using trancl_mono[OF _ sub] by blast
    then have "(x, x) \<in> ?r\<^sup>+" by (simp add: trancl_converse)
    with reach assms show False by (auto simp: chain_acyclic_def)
  qed
qed

lemma lineage_loop_reach:
  assumes ac: "chain_acyclic db i"
  shows "(i, x) \<in> (parent_link db)\<^sup>* \<Longrightarrow>
           \<exists>l. (\<forall>acc. lineage_loop db acc (Some x) = Some (acc @ l)) \<and> lineage_spec db x l"
proof (induction x rule: wf_induct_rule[OF wf_chain[OF ac]])
  case (1 x)
  show ?case
  proof (cases "get_agent db x")
    case None
    then have "\<forall>acc. lineage_loop db acc (Some x) = Some (acc @ [])"
      by (simp add: lineage_loop.simps)
    with None show ?thesis by (intro exI[of _ "[]"]) simp
  next
    case (Some a)
    show ?thesis
    proof (cases "parent_id a")
      case None
      have "\<forall>acc. lineage_loop db acc (Some x) = Some (acc @ [a])"
        using Some None by (simp add: lineage_loop.simps)
      with Some None show ?thesis by (intro exI[of _ "[a]"]) simp
    next
      case (Some p)
      have link: "(x, p) \<in> parent_link db"
        using \<open>get_agent db x = Some a\<close> Some by (auto simp: parent_link_def)
      with "1.prems" have rp: "(i, p) \<in> (parent_link db)\<^sup>*" by auto
      from "1.IH"[of p] link "1.prems" rp
      obtain l where l: "\<forall>acc. lineage_loop db acc (Some p) = Some (acc @ l)"
        and sp: "lineage_spec db p l" by auto
      have "\<forall>acc. lineage_loop db acc (Some x) = Some (acc @ (a # l))"
        using \<open>get_agent db x = Some a\<close> Some l
        by (subst lineage_loop.simps) simp
      moreover have "lineage_spec db x (a # l)"
        using \<open>get_agent db x = Some a\<close> Some sp by simp
      ultimately show ?thesis by blast
    qed
  qed
qed

text \<open>Rows whose parent id is smaller than their own id have no cycle.\<close>

lemma ordered_parents_acyclic:
  assumes "\<forall>a \<in> set (agents db). \<forall>p. parent_id a = Some p \<longrightarrow> p < agent_id a"
  shows "chain_acyclic db i"
proof -
  have sub: "parent_link db \<subseteq> {(c, p). p < c}"
    using assms by (auto simp: parent_link_def dest!: get_agent_Some)
  have "trans {(c::int, p). p < c}" by (auto simp: trans_def)
  then have "(parent_link db)\<^sup>+ \<subseteq> {(c, p). p < c}"
    using sub by (metis trancl_id trancl_mono subsetI)
  then show ?thesis by (auto simp: chain_acyclic_def)
qed

text \<open>
  Claim C6. When the parent chain of \<open>i\<close> has no cycle, \<open>get_lineage\<close> returns, and
  the list it returns starts at the row \<open>i\<close>, follows the parent links in order, and
  ends at a row with no parent or at the last row whose parent is stored (for an id
  that is not stored it is empty); no error is raised on the way.
\<close>

theorem get_lineage_terminates:
  assumes "chain_acyclic db i"
  shows "\<exists>l. get_lineage db i = Some l \<and> lineage_spec db i l"
proof -
  from lineage_loop_reach[OF assms, of i]
  obtain l where "\<forall>acc. lineage_loop db acc (Some i) = Some (acc @ l)" "lineage_spec db i l"
    by auto
  then show ?thesis by (auto simp: get_lineage_def)
qed

theorem get_lineage_terminates_witness:
  "chain_acyclic demo_archive 3 \<and>
   (\<exists>l. get_lineage demo_archive 3 = Some l \<and> lineage_spec demo_archive 3 l) \<and>
   map agent_id (the (get_lineage demo_archive 3)) = [3, 2, 1] \<and>
   map agent_id (the (get_lineage demo_archive 5)) = [5]"
proof -
  have h: "chain_acyclic demo_archive 3"
    by (rule ordered_parents_acyclic) (simp add: demo_archive_def)
  have a: "map agent_id (the (get_lineage demo_archive 3)) = [3, 2, 1]"
    by (simp add: get_lineage_def lineage_loop.simps get_agent_def demo_archive_def)
  have b: "map agent_id (the (get_lineage demo_archive 5)) = [5]"
    by (simp add: get_lineage_def lineage_loop.simps get_agent_def demo_archive_def)
  show ?thesis using h get_lineage_terminates[OF h] a b by blast
qed

text \<open>
  Without the hypothesis the loop need not end: \<open>save_agent\<close> stores a row that is its
  own parent, and \<open>get_lineage\<close> of it never returns.
\<close>

lemma self_parent_row:
  "get_agent self_parent_archive 1 =
     Some \<lparr>agent_id = 1, code = ''x'', score = 0, created_at = 0, parent_id = Some 1,
           description = [], metadata = ''{}'', is_functional = True\<rparr>"
  by (simp add: self_parent_archive_def save_agent_def empty_archive_def get_agent_def)

lemma lineage_loop_self_parent:
  "lineage_loop db acc cur = Some y \<Longrightarrow> db = self_parent_archive \<Longrightarrow> cur = Some 1 \<Longrightarrow> False"
proof (induction rule: lineage_loop.raw_induct[rotated 1, consumes 1])
  case (1 lineage_loop' db lineage current_id y)
  then show ?case by (simp add: self_parent_row)
qed

lemma get_lineage_self_parent: "get_lineage self_parent_archive 1 = None"
proof (cases "get_lineage self_parent_archive 1")
  case None
  then show ?thesis .
next
  case (Some y)
  then show ?thesis using lineage_loop_self_parent by (auto simp: get_lineage_def)
qed

lemma fold_max_Max: "fold max ys (x::real) = Max (set (x # ys))"
  by (rule Max.set_eq_fold[symmetric])

text \<open>
  Claim C7, as the code has it. The dictionary of \<open>get_statistics\<close> has six keys: the
  number of rows, the number of functional rows, their quotient as success rate (0 on
  an empty table), the highest and the average score of the functional rows (0.0 each
  when there is none), and the pairs of creation time and score of the functional rows
  in ascending order of creation time. It holds no minimum score.
\<close>

theorem get_statistics_contents:
  "map fst (get_statistics db) =
     [''total_agents'', ''functional_agents'', ''success_rate'', ''best_score'',
      ''average_score'', ''score_history''] \<and>
   map_of (get_statistics db) ''total_agents'' = Some (PInt (int (length (agents db)))) \<and>
   map_of (get_statistics db) ''functional_agents'' =
     Some (PInt (int (length (filter is_functional (agents db))))) \<and>
   map_of (get_statistics db) ''success_rate'' =
     Some (if agents db = [] then PInt 0
           else PFloat (real (length (filter is_functional (agents db))) / real (length (agents db)))) \<and>
   map_of (get_statistics db) ''best_score'' =
     Some (PFloat (if filter is_functional (agents db) = [] then 0
                   else Max (score ` set (filter is_functional (agents db))))) \<and>
   map_of (get_statistics db) ''average_score'' =
     Some (PFloat (if filter is_functional (agents db) = [] then 0
                   else sum_list (map score (filter is_functional (agents db)))
                          / real (length (filter is_functional (agents db))))) \<and>
   (\<exists>h. map_of (get_statistics db) ''score_history'' = Some (PRows h) \<and>
        sorted (map fst h) \<and>
        mset h = mset (map (\<lambda>a. (created_at a, score a)) (filter is_functional (agents db))))"
proof -
  let ?fs = "filter is_functional (agents db)"
  have best: "or_zero (sql_max (map score ?fs)) = (if ?fs = [] then 0 else Max (score ` set ?fs))"
  proof (cases ?fs)
    case Nil
    then show ?thesis by (simp add: or_zero_def sql_max_def)
  next
    case (Cons a as)
    have "fold max (map score as) (score a) = Max (set (map score (a # as)))"
      using fold_max_Max[of "map score as" "score a"] by simp
    with Cons show ?thesis by (simp add: or_zero_def sql_max_def)
  qed
  have avg: "or_zero (sql_avg (map score ?fs)) =
               (if ?fs = [] then 0 else sum_list (map score ?fs) / real (length ?fs))"
    by (cases ?fs) (simp_all add: or_zero_def sql_avg_def)
  have hist_sorted: "sorted (map fst (map (\<lambda>a. (created_at a, score a)) (sort_key created_at ?fs)))"
    by (simp add: comp_def)
  have hist_mset: "mset (map (\<lambda>a. (created_at a, score a)) (sort_key created_at ?fs))
                     = mset (map (\<lambda>a. (created_at a, score a)) ?fs)"
    by simp
  have keys: "map fst (get_statistics db) =
     [''total_agents'', ''functional_agents'', ''success_rate'', ''best_score'',
      ''average_score'', ''score_history'']"
    by (simp add: get_statistics_def Let_def)
  have t: "map_of (get_statistics db) ''total_agents'' = Some (PInt (int (length (agents db))))"
    by (simp add: get_statistics_def Let_def)
  have f: "map_of (get_statistics db) ''functional_agents'' = Some (PInt (int (length ?fs)))"
    by (simp add: get_statistics_def Let_def)
  have r: "map_of (get_statistics db) ''success_rate'' =
     Some (if agents db = [] then PInt 0 else PFloat (real (length ?fs) / real (length (agents db))))"
    by (simp add: get_statistics_def Let_def)
  have b: "map_of (get_statistics db) ''best_score'' =
     Some (PFloat (if ?fs = [] then 0 else Max (score ` set ?fs)))"
    using best by (simp add: get_statistics_def Let_def)
  have a: "map_of (get_statistics db) ''average_score'' =
     Some (PFloat (if ?fs = [] then 0 else sum_list (map score ?fs) / real (length ?fs)))"
    using avg by (simp add: get_statistics_def Let_def)
  have h: "map_of (get_statistics db) ''score_history'' =
     Some (PRows (map (\<lambda>a. (created_at a, score a)) (sort_key created_at ?fs)))"
    by (simp add: get_statistics_def Let_def)
  from keys t f r b a h hist_sorted hist_mset show ?thesis by blast
qed

text \<open>
  Claim C7 as stated fails: the lowest score of the functional rows of the example, 1/4,
  is under no key of the dictionary.
\<close>

theorem get_statistics_no_minimum_counterexample:
  "get_statistics demo_archive =
     [(''total_agents'', PInt 4), (''functional_agents'', PInt 3),
      (''success_rate'', PFloat (3/4)), (''best_score'', PFloat (3/4)),
      (''average_score'', PFloat (1/2)),
      (''score_history'', PRows [(1, 3/4), (2, 1/4), (5, 1/2)])] \<and>
   Min (score ` set (filter is_functional (agents demo_archive))) = 1/4 \<and>
   PFloat (1/4) \<notin> set (map snd (get_statistics demo_archive))"
  by (simp add: get_statistics_def demo_archive_def sql_max_def sql_avg_def or_zero_def)

section \<open>The evaluator: patch extraction\<close>

lemmas io_defs = io_bind_def io_return_def io_raise_def try_except_def

text \<open>
  Every match of a plain pattern is the pattern itself: when strategy 1 finds
  something, what it returns is the six backquotes.
\<close>

lemma findall_from_pattern: "set (findall_from pat k s) \<subseteq> {pat}"
  by (induction pat k s rule: findall_from.induct) auto

lemma strategy_1_returns_pattern:
  assumes "findall diff_pattern s \<noteq> []"
  shows "extract_patch_from_solution sys (Text s) repo_dir w = (Inr diff_pattern, w)"
proof -
  from assms obtain m ms where ms: "findall diff_pattern s = m # ms"
    by (cases "findall diff_pattern s") auto
  then have "m \<in> set (findall_from diff_pattern 0 s)" by (simp add: findall_def)
  then have "m = diff_pattern" using findall_from_pattern by fastforce
  with ms show ?thesis
    by (simp add: extract_patch_from_solution_def extract_patch_body_def io_defs)
qed

text \<open>
  Claim C3 fails on the code. The text \<open>fenced_solution\<close> holds a fenced block whose
  content is a diff, and after it a line that starts with \<open>diff --git\<close>. The pattern
  of strategy 1 does not occur in it, so strategy 2 answers: the result is the text
  from the \<open>diff --git\<close> line on, not the content of the fenced block.
\<close>

theorem fenced_diff_not_returned:
  "extract_patch_from_solution (demo_sys all_ok) (Text fenced_solution) ''d/repos/a'' world0
     = (Inr ''diff --git a/g b/g'', world0) \<and>
   findall diff_pattern fenced_solution = [] \<and>
   fenced_content \<noteq> ''diff --git a/g b/g''"
  by code_simp

text \<open>
  Claim C10. \<open>extract_patch_from_solution\<close> returns a text for every solution, every
  sandbox path and every behaviour of the machine; whenever the body of its \<open>try\<close>
  block raises, the text is empty. Two ways the body raises are spelled out: a solution
  that is not a text (the scan raises), and a \<open>git diff\<close> of strategy 3 that raises.
\<close>

theorem extract_never_raises:
  "(\<exists>p. fst (extract_patch_from_solution sys solution repo_dir w) = Inr p) \<and>
   (\<forall>e. fst (extract_patch_body sys solution repo_dir w) = Inl e \<longrightarrow>
        fst (extract_patch_from_solution sys solution repo_dir w) = Inr []) \<and>
   fst (extract_patch_from_solution sys NoneValue repo_dir w) = Inr [] \<and>
   (\<forall>s e. findall diff_pattern s = [] \<and> scan_lines False [] (split_nl s) = [] \<and>
          fst (sys_run sys (git_diff_cmd repo_dir) (ext w)) = Inl e \<longrightarrow>
          fst (extract_patch_from_solution sys (Text s) repo_dir w) = Inr [])"
proof -
  have a: "\<exists>p. fst (extract_patch_from_solution sys solution repo_dir w) = Inr p"
    by (auto simp: extract_patch_from_solution_def try_except_def io_return_def
        split: prod.splits sum.splits)
  have b: "\<forall>e. fst (extract_patch_body sys solution repo_dir w) = Inl e \<longrightarrow>
        fst (extract_patch_from_solution sys solution repo_dir w) = Inr []"
    by (auto simp: extract_patch_from_solution_def try_except_def io_return_def
        split: prod.splits sum.splits)
  have c: "fst (extract_patch_from_solution sys NoneValue repo_dir w) = Inr []"
    by (simp add: extract_patch_from_solution_def extract_patch_body_def io_defs)
  have d: "\<forall>s e. findall diff_pattern s = [] \<and> scan_lines False [] (split_nl s) = [] \<and>
          fst (sys_run sys (git_diff_cmd repo_dir) (ext w)) = Inl e \<longrightarrow>
          fst (extract_patch_from_solution sys (Text s) repo_dir w) = Inr []"
    by (auto simp: extract_patch_from_solution_def extract_patch_body_def io_defs run_def
        split: prod.splits sum.splits)
  from a b c d show ?thesis by blast
qed

theorem extract_never_raises_witness:
  "fst (extract_patch_body (demo_sys diff_raises) (Text ''no patch'') ''d/repos/a'' world0)
     = Inl (Exception ''no shell'') \<and>
   fst (extract_patch_from_solution (demo_sys diff_raises) (Text ''no patch'') ''d/repos/a'' world0)
     = Inr [] \<and>
   fst (extract_patch_from_solution (demo_sys diff_raises) NoneValue ''d/repos/a'' world0) = Inr []"
proof -
  have h: "fst (extract_patch_body (demo_sys diff_raises) (Text ''no patch'') ''d/repos/a'' world0)
             = Inl (Exception ''no shell'')"
    by code_simp
  show ?thesis
    using extract_never_raises[of "demo_sys diff_raises" "Text ''no patch''" "''d/repos/a''" world0] h
    by simp
qed


section \<open>The harness: evaluating a patch\<close>

text \<open>
  Claim C5. When \<open>git apply\<close> of the agent's patch ends with a status other than zero
  (the reset and the writing of the patch file having gone through), \<open>evaluate_patch\<close>
  returns \<open>success = False\<close>, the score 0.0 and the reason
  \<open>Patch failed to apply:\<close> followed by the error output; the calls it made are the
  reset, the write and the apply, and the test command is not among them.
\<close>

theorem evaluate_patch_apply_failure:
  assumes "sys_run sys (reset_cmd repo_dir) (ext w) = (Inr c0, e1)"
      and "sys_write_text sys (repo_dir @ ''/agent_patch.patch'') patch e1 = (Inr (), e2)"
      and "sys_run sys (apply_cmd repo_dir) e2 = (Inr cp, e3)"
      and "returncode cp \<noteq> 0"
  shows "evaluate_patch sys repo_dir patch inst w =
           (Inr \<lparr>success = False, reason = ''Patch failed to apply: '' @ stderr cp,
                 ev_score = 0, test_output = None, test_errors = None\<rparr>,
            \<lparr>ext = e3,
             calls = calls w @ [Run (reset_cmd repo_dir),
                                WriteText (repo_dir @ ''/agent_patch.patch'') patch,
                                Run (apply_cmd repo_dir)]\<rparr>) \<and>
         Run (test_cmd repo_dir) \<notin> set [Run (reset_cmd repo_dir),
                                WriteText (repo_dir @ ''/agent_patch.patch'') patch,
                                Run (apply_cmd repo_dir)]"
  using assms
  by (simp add: evaluate_patch_def io_defs run_def write_text_def
      test_cmd_def reset_cmd_def apply_cmd_def)

theorem evaluate_patch_apply_failure_witness:
  "evaluate_patch (demo_sys apply_fails) ''d/repos/a'' ''junk'' inst_a world0 =
     (Inr \<lparr>success = False, reason = ''Patch failed to apply: error: corrupt patch'',
           ev_score = 0, test_output = None, test_errors = None\<rparr>,
      \<lparr>ext = [],
       calls = [Run ''cd d/repos/a && git checkout HEAD -- .'',
                WriteText ''d/repos/a/agent_patch.patch'' ''junk'',
                Run ''cd d/repos/a && git apply agent_patch.patch'']\<rparr>) \<and>
   Run ''cd d/repos/a && python -m pytest -xvs'' \<notin>
     set (calls (snd (evaluate_patch (demo_sys apply_fails) ''d/repos/a'' ''junk'' inst_a world0)))"
proof -
  have h1: "sys_run (demo_sys apply_fails) (reset_cmd ''d/repos/a'') (ext world0) = (Inr done_ok, [])"
    by code_simp
  have h2: "sys_write_text (demo_sys apply_fails) (''d/repos/a'' @ ''/agent_patch.patch'') ''junk'' []
              = (Inr (), [])"
    by code_simp
  have h3: "sys_run (demo_sys apply_fails) (apply_cmd ''d/repos/a'') []
              = (Inr \<lparr>returncode = 1, stdout = [], stderr = ''error: corrupt patch''\<rparr>, [])"
    by code_simp
  have h4: "returncode \<lparr>returncode = 1, stdout = [], stderr = ''error: corrupt patch''\<rparr> \<noteq> 0"
    by simp
  show ?thesis
    using evaluate_patch_apply_failure[OF h1 h2 h3 h4, of inst_a]
    by (simp add: world0_def reset_cmd_def apply_cmd_def)
qed

lemma evaluate_patch_never_raises:
  "\<exists>ev. fst (evaluate_patch sys repo_dir patch inst w) = Inr ev"
  by (auto simp: evaluate_patch_def try_except_def io_return_def split: prod.splits sum.splits)

text \<open>
  More generally: unless the reset, the write and the apply all go through with the
  apply ending in status zero, the evaluation is a failure with score 0 and nothing
  beyond those three calls is made.
\<close>

lemma evaluate_patch_no_tests_unless_applied:
  assumes "\<not> (\<exists>c0 e1 e2 cp e3.
              sys_run sys (reset_cmd repo_dir) (ext w) = (Inr c0, e1) \<and>
              sys_write_text sys (repo_dir @ ''/agent_patch.patch'') patch e1 = (Inr (), e2) \<and>
              sys_run sys (apply_cmd repo_dir) e2 = (Inr cp, e3) \<and> returncode cp = 0)"
  shows "\<exists>ev w'. evaluate_patch sys repo_dir patch inst w = (Inr ev, w') \<and>
           \<not> success ev \<and> ev_score ev = 0 \<and>
           set (calls w') \<subseteq> set (calls w) \<union>
             {Run (reset_cmd repo_dir), WriteText (repo_dir @ ''/agent_patch.patch'') patch,
              Run (apply_cmd repo_dir)}"
proof -
  obtain r0 e1 where a: "sys_run sys (reset_cmd repo_dir) (ext w) = (r0, e1)"
    by (cases "sys_run sys (reset_cmd repo_dir) (ext w)") auto
  obtain r1 e2 where b: "sys_write_text sys (repo_dir @ ''/agent_patch.patch'') patch e1 = (r1, e2)"
    by (cases "sys_write_text sys (repo_dir @ ''/agent_patch.patch'') patch e1") auto
  obtain r2 e3 where c: "sys_run sys (apply_cmd repo_dir) e2 = (r2, e3)"
    by (cases "sys_run sys (apply_cmd repo_dir) e2") auto
  show ?thesis
  proof (cases r0)
    case (Inl e)
    with a show ?thesis by (auto simp: evaluate_patch_def io_defs run_def)
  next
    case r0: (Inr c0)
    show ?thesis
    proof (cases r1)
      case (Inl e)
      with a r0 b show ?thesis
        by (auto simp: evaluate_patch_def io_defs run_def write_text_def)
    next
      case r1: (Inr u)
      show ?thesis
      proof (cases r2)
        case (Inl e)
        with a r0 b r1 c show ?thesis
          by (auto simp: evaluate_patch_def io_defs run_def write_text_def)
      next
        case (Inr cp)
        with a r0 b r1 c assms have "returncode cp \<noteq> 0" by auto
        with a r0 b r1 c Inr show ?thesis
          by (auto simp: evaluate_patch_def io_defs run_def write_text_def)
      qed
    qed
  qed
qed

section \<open>The evaluator: running an agent over the instances\<close>


lemma process_instance_raise:
  "fst (attempt_instance sys ld agent inst w) = Inl e \<Longrightarrow>
     fst (process_instance sys ld agent inst ((p, rs), w)) = (p, rs @ [exception_result inst e])"
  by (auto simp: process_instance_def split: prod.splits sum.splits)

lemma attempt_agent_raises:
  assumes "setup_repository sys ld inst (snd (time_now sys w)) = (Inr d, w2)"
      and "fst (agent (problem_statement inst) d (ext w2)) = Inl e"
  shows "fst (attempt_instance sys ld agent inst w) = Inl e"
  using assms
  by (auto simp: attempt_instance_def io_defs time_now_def solve_task_def split: prod.splits sum.splits)








text \<open>
  Claim C1 fails on the code: the cleanup stands at the end of the \<open>try\<close> block, and
  the handler removes nothing. With an agent whose \<open>solve_task\<close> raises, on a machine
  where a clone creates the sandbox, both sandboxes exist after the run of two
  instances, and no \<open>rmtree\<close> was called: the sandbox of the first instance was there
  when the second one started.
\<close>

theorem sandbox_left_after_exception:
  "snd (evaluate_agent (demo_sys all_ok) demo_loader raising_agent
     \<lparr>current_instances = [inst_a, inst_b], results_history = []\<rparr> 2 world0)
   = \<lparr>ext = [''d/repos/a'', ''d/repos/b''],
      calls =
       [Mkdir ''d/repos'',
        Run ''git clone https://github.com/o/r.git d/repos/a'',
        Run ''cd d/repos/a && git checkout c0'',
        SolveTask ''fix a'' ''d/repos/a'',
        Mkdir ''d/repos'',
        Run ''git clone https://github.com/o/r.git d/repos/b'',
        Run ''cd d/repos/b && git checkout c1'',
        SolveTask ''fix b'' ''d/repos/b'']\<rparr> \<and>
   sys_exists (demo_sys all_ok) (sandbox_path demo_loader inst_a)
     (ext (snd (evaluate_agent (demo_sys all_ok) demo_loader raising_agent
        \<lparr>current_instances = [inst_a, inst_b], results_history = []\<rparr> 2 world0)))"
  by code_simp


section \<open>The evaluator: exceptions that are caught and exceptions that are not\<close>
















section \<open>The evaluator: improvement metrics\<close>

lemma py_slice_last: "0 < k \<Longrightarrow> py_slice (Some (- int k)) None xs = drop (length xs - k) xs"
  by (auto simp: py_slice_def Let_def max_def min_def nat_diff_distrib' take_all_iff)

lemma py_slice_window:
  "10 \<le> length xs \<Longrightarrow> py_slice (Some (- 10)) (Some (- 5)) xs = take 5 (drop (length xs - 10) xs)"
  by (simp add: py_slice_def Let_def max_def min_def nat_diff_distrib')

lemma float_0_01_bounds: "0 < float_0_01 \<and> 1 / 100 < float_0_01 \<and> float_0_01 < 1"
  by (simp add: float_0_01_def)

text \<open>
  What \<open>get_improvement_metrics\<close> computes, for every float arithmetic: with ten runs
  or more, the mean of the last five against the mean of the five before them; with
  two to nine runs, the mean of the last five (or fewer) against the last run alone.
\<close>

lemma improvement_metrics_windows:
  "(length (results_history ev) < 2 \<longrightarrow>
      get_improvement_metrics fa ev =
        [(''improvement'', PFloat 0), (''trend'', PStr ''insufficient_data'')]) \<and>
   (2 \<le> length (results_history ev) \<longrightarrow>
      (let h = results_history ev;
           recent = mean fa (map run_score (drop (length h - 5) h));
           earlier = (if 10 \<le> length h
                      then mean fa (map run_score (take 5 (drop (length h - 10) h)))
                      else mean fa [run_score (last h)]);
           d = fl fa (recent - earlier)
       in get_improvement_metrics fa ev =
            [(''improvement'', PFloat d),
             (''trend'', PStr (if d > float_0_01 then ''improving''
                               else if d < - float_0_01 then ''declining'' else ''stable'')),
             (''recent_avg'', PFloat recent),
             (''earlier_avg'', PFloat earlier),
             (''total_evaluations'', PInt (int (length h)))]))"
proof -
  have r: "py_slice (Some (- 5)) None (results_history ev)
             = drop (length (results_history ev) - 5) (results_history ev)"
    using py_slice_last[of 5 "results_history ev"] by simp
  show ?thesis
    by (simp add: get_improvement_metrics_def Let_def r py_slice_window trend_of_def)
qed

text \<open>
  Claim C4 fails on the code, on a history of seven runs with the scores 1, 1, 0, 0, 0,
  0, 0. The two runs before the last five have the mean 1, so the claim gives the
  improvement -1 and the trend \<open>declining\<close>; the code takes the last run for the earlier
  ones and gives 0 and \<open>stable\<close>. This holds for every float arithmetic that computes
  the six sums, quotients and differences of 0, 1 and 2 involved without error, as
  binary64 does.
\<close>

theorem improvement_compares_with_last_run:
  assumes "fsum fa [0, 0, 0, 0, 0] = 0" and "fsum fa [0] = 0" and "fsum fa [1, 1] = 2"
      and "fl fa 0 = 0" and "fl fa 1 = 1" and "fl fa (- 1) = - 1"
  shows "get_improvement_metrics fa (history_of [1, 1, 0, 0, 0, 0, 0]) =
           [(''improvement'', PFloat 0), (''trend'', PStr ''stable''),
            (''recent_avg'', PFloat 0), (''earlier_avg'', PFloat 0),
            (''total_evaluations'', PInt 7)] \<and>
         spec_recent_scores (history_of [1, 1, 0, 0, 0, 0, 0]) = [0, 0, 0, 0, 0] \<and>
         spec_earlier_scores (history_of [1, 1, 0, 0, 0, 0, 0]) = [1, 1] \<and>
         spec_improvement fa (history_of [1, 1, 0, 0, 0, 0, 0]) = - 1 \<and>
         trend_of (spec_improvement fa (history_of [1, 1, 0, 0, 0, 0, 0])) = ''declining''"
proof -
  let ?ev = "history_of [1, 1, 0, 0, 0, 0, 0]"
  have len: "length (results_history ?ev) = 7"
    by (simp add: history_of_def)
  have rec: "map run_score (py_slice (Some (- 5)) None (results_history ?ev)) = [0, 0, 0, 0, 0]"
    by (simp add: history_of_def py_slice_def run_with_def)
  have ear: "map run_score (py_slice (Some (- 10)) (Some (- 5)) (results_history ?ev)) = [1, 1]"
    by (simp add: history_of_def py_slice_def run_with_def)
  have lst: "run_score (last (results_history ?ev)) = 0"
    by (simp add: history_of_def run_with_def)
  have m0: "mean fa [0, 0, 0, 0, 0] = 0" using assms by (simp add: mean_def)
  have m1: "mean fa [0] = 0" using assms by (simp add: mean_def)
  have m2: "mean fa [1, 1] = 1" using assms by (simp add: mean_def)
  have t0: "trend_of 0 = ''stable''"
    using float_0_01_bounds by (simp add: trend_of_def)
  have code: "get_improvement_metrics fa ?ev =
           [(''improvement'', PFloat 0), (''trend'', PStr ''stable''),
            (''recent_avg'', PFloat 0), (''earlier_avg'', PFloat 0),
            (''total_evaluations'', PInt 7)]"
    using assms(4)
    by (simp add: get_improvement_metrics_def Let_def len rec lst m0 m1 t0)
  have sr: "spec_recent_scores ?ev = [0, 0, 0, 0, 0]"
    by (simp add: spec_recent_scores_def rec)
  have se: "spec_earlier_scores ?ev = [1, 1]"
    by (simp add: spec_earlier_scores_def ear)
  have si: "spec_improvement fa ?ev = - 1"
    using assms(6) by (simp add: spec_improvement_def sr se m0 m2)
  have tr: "trend_of (- 1) = ''declining''"
    using float_0_01_bounds by (simp add: trend_of_def)
  from code sr se si tr show ?thesis by simp
qed

theorem improvement_compares_with_last_run_witness:
  "fsum exact_arith [0, 0, 0, 0, 0] = 0 \<and> fsum exact_arith [0] = 0 \<and>
   fsum exact_arith [1, 1] = 2 \<and> fl exact_arith 0 = 0 \<and> fl exact_arith 1 = 1 \<and>
   fl exact_arith (- 1) = - 1 \<and>
   get_improvement_metrics exact_arith (history_of [1, 1, 0, 0, 0, 0, 0]) =
     [(''improvement'', PFloat 0), (''trend'', PStr ''stable''),
      (''recent_avg'', PFloat 0), (''earlier_avg'', PFloat 0),
      (''total_evaluations'', PInt 7)] \<and>
   spec_improvement exact_arith (history_of [1, 1, 0, 0, 0, 0, 0]) = - 1"
proof -
  have h: "fsum exact_arith [0, 0, 0, 0, 0] = 0" "fsum exact_arith [0] = 0"
    "fsum exact_arith [1, 1] = 2" "fl exact_arith 0 = 0" "fl exact_arith 1 = 1"
    "fl exact_arith (- 1) = - 1"
    by (simp_all add: exact_arith_def)
  show ?thesis
    using improvement_compares_with_last_run[OF h] h by simp
qed

end
